theory Spec2Isabelle
  imports Complex_Main "HOL-Library.Sublist"
begin

section \<open>Money and dates\<close>

text \<open>
  Monetary columns are \<^verbatim>\<open>DECIMAL(12,2)\<close> in the schema and JavaScript numbers in the
  pages. The model computes with exact rationals: \<open>0.01\<close> is \<open>1/100\<close>, and sums,
  products and comparisons are exact. A nullable column is an \<open>option\<close>; the pages
  read it through \<^verbatim>\<open>Number(...)\<close>, which maps \<^verbatim>\<open>null\<close> to \<open>0\<close>.
\<close>

type_synonym money = rat

definition Number :: "money option \<Rightarrow> money" where
  "Number v = (case v of None \<Rightarrow> 0 | Some x \<Rightarrow> x)"

text \<open>
  A \<^verbatim>\<open>DATE\<close> column, and the \<^verbatim>\<open>YYYY-MM-DD\<close> strings of the date inputs: year,
  month, day, ordered as the calendar orders them.
\<close>

type_synonym date = "nat \<times> nat \<times> nat"

fun date_le :: "date \<Rightarrow> date \<Rightarrow> bool" where
  "date_le (y1, m1, d1) (y2, m2, d2) =
     (y1 < y2 \<or> (y1 = y2 \<and> (m1 < m2 \<or> (m1 = m2 \<and> d1 \<le> d2))))"

text \<open>The \<^verbatim>\<open>dateRange\<close> state of the Reports page: \<^verbatim>\<open>{ from, to }\<close>.\<close>

record dateRange =
  range_from :: date
  range_to :: date

text \<open>
  \<^verbatim>\<open>.gte(col, dateRange.from).lte(col, dateRange.to)\<close> on a column of the queried
  table itself: the rows whose column lies in the closed range.
\<close>

definition gte_lte :: "('a \<Rightarrow> date) \<Rightarrow> dateRange \<Rightarrow> 'a list \<Rightarrow> 'a list" where
  "gte_lte col r rows =
     filter (\<lambda>x. date_le (range_from r) (col x) \<and> date_le (col x) (range_to r)) rows"

section \<open>Invoices, bills and the VAT return (Reports.tsx, generateVATReturn)\<close>

text \<open>
  The rows of \<^verbatim>\<open>public.invoices\<close> and \<^verbatim>\<open>public.bills\<close>, with the columns the report
  reads and the \<^verbatim>\<open>status\<close> column with the values its \<^verbatim>\<open>CHECK\<close> admits.
\<close>

datatype invoice_status = draft | sent | paid | overdue | cancelled

datatype bill_status = bill_draft | bill_received | bill_paid | bill_overdue | bill_cancelled

record invoice =
  inv_date :: date
  inv_vat_amount :: money
  inv_total :: money
  inv_status :: invoice_status

record bill =
  bill_date :: date
  bill_vat_amount :: money
  bill_total :: money
  bill_status :: bill_status

record vatReturn =
  box1 :: money
  box2 :: money
  box3 :: money
  box4 :: money
  box5 :: money
  box6 :: money
  box7 :: money
  box8 :: money
  box9 :: money

text \<open>
  \<^verbatim>\<open>xs.reduce((sum, x) => sum + f(x), 0)\<close>: a left fold from \<open>0\<close>.
\<close>

definition reduce_sum :: "('a \<Rightarrow> money) \<Rightarrow> 'a list \<Rightarrow> money" where
  "reduce_sum f xs = foldl (\<lambda>sum x. sum + f x) 0 xs"

text \<open>
  Both queries select \<^verbatim>\<open>vat_amount, total, date\<close> with the two date filters and no
  filter on \<^verbatim>\<open>status\<close>. The trailing \<^verbatim>\<open>|| 0\<close> of each sum replaces a falsy sum,
  which for a number is \<open>0\<close> itself.
\<close>

definition generateVATReturn :: "dateRange \<Rightarrow> invoice list \<Rightarrow> bill list \<Rightarrow> vatReturn" where
  "generateVATReturn r invoices_table bills_table =
     (let invoices = gte_lte inv_date r invoices_table;
          bills = gte_lte bill_date r bills_table;
          b1 = reduce_sum inv_vat_amount invoices;
          b2 = 0;
          b3 = b1 + b2;
          b4 = reduce_sum bill_vat_amount bills;
          b5 = b3 - b4;
          b6 = reduce_sum (\<lambda>inv. inv_total inv - inv_vat_amount inv) invoices;
          b7 = reduce_sum (\<lambda>bill. bill_total bill - bill_vat_amount bill) bills;
          b8 = 0;
          b9 = 0
      in \<lparr>box1 = b1, box2 = b2, box3 = b3, box4 = b4, box5 = b5,
          box6 = b6, box7 = b7, box8 = b8, box9 = b9\<rparr>)"

section \<open>Journal lines and their check constraint (migration, journal_lines)\<close>

text \<open>
  A row of \<^verbatim>\<open>public.journal_lines\<close> as the Reports page reads it: the two amount
  columns (nullable, default 0), the joined
  \<^verbatim>\<open>account:chart_of_accounts(account_name, account_type)\<close> (absent when the join
  yields nothing) and the date of the journal the line belongs to.
\<close>

record account =
  account_name :: string
  account_type :: string

record journal_line =
  debit_amount :: "money option"
  credit_amount :: "money option"
  line_account :: "account option"
  journal_date :: date







datatype db_error = check_violation string | foreign_key_violation string


section \<open>Report generator (Reports.tsx)\<close>

text \<open>
  \<^verbatim>\<open>line.account?.account_name || 'Unknown'\<close>: a missing account and an empty name
  both give \<^verbatim>\<open>'Unknown'\<close>.
\<close>

definition accountName :: "journal_line \<Rightarrow> string" where
  "accountName l =
     (case line_account l of
        None \<Rightarrow> ''Unknown''
      | Some a \<Rightarrow> if account_name a = [] then ''Unknown'' else account_name a)"

text \<open>\<^verbatim>\<open>line.account?.account_type\<close>: undefined when the account is missing.\<close>

definition accountType :: "journal_line \<Rightarrow> string option" where
  "accountType l = map_option account_type (line_account l)"

text \<open>
  The rows of the Profit and Loss report, \<^verbatim>\<open>{ account_name, total }\<close>, and of the
  Balance Sheet, \<^verbatim>\<open>{ account_name, balance }\<close>: a name and an amount.
\<close>

type_synonym report_row = "string \<times> money"

text \<open>
  \<^verbatim>\<open>const existing = rows.find(item => item.account_name === accountName);
  if (existing) { existing.total += amount } else { rows.push({ account_name, total: amount }) }\<close>
  The first row of that name is updated in place; otherwise a row is appended.
\<close>

fun find_add_or_push :: "string \<Rightarrow> money \<Rightarrow> report_row list \<Rightarrow> report_row list" where
  "find_add_or_push name amount [] = [(name, amount)]"
| "find_add_or_push name amount ((n, t) # rows) =
     (if n = name then (n, t + amount) # rows
      else (n, t) # find_add_or_push name amount rows)"

record profitLoss =
  income :: "report_row list"
  expenses :: "report_row list"
  totalIncome :: money
  totalExpenses :: money
  netProfit :: money

definition profitLoss_line :: "report_row list \<times> report_row list \<Rightarrow> journal_line
    \<Rightarrow> report_row list \<times> report_row list" where
  "profitLoss_line acc line =
     (case acc of (inc, exps) \<Rightarrow>
        if accountType line = Some ''income'' then
          (find_add_or_push (accountName line)
             (Number (credit_amount line) - Number (debit_amount line)) inc, exps)
        else if accountType line = Some ''expense'' then
          (inc, find_add_or_push (accountName line)
             (Number (debit_amount line) - Number (credit_amount line)) exps)
        else (inc, exps))"

text \<open>
  \<^verbatim>\<open>generateProfitLoss\<close> on the rows its query returned. No row is removed after the
  loop.
\<close>

definition generateProfitLoss :: "journal_line list \<Rightarrow> profitLoss" where
  "generateProfitLoss journalLines =
     (case foldl profitLoss_line ([], []) journalLines of (inc, exps) \<Rightarrow>
        \<lparr>income = inc, expenses = exps,
         totalIncome = reduce_sum snd inc,
         totalExpenses = reduce_sum snd exps,
         netProfit = reduce_sum snd inc - reduce_sum snd exps\<rparr>)"

record balanceSheet =
  assets :: "report_row list"
  liabilities :: "report_row list"
  equity :: "report_row list"
  totalAssets :: money
  totalLiabilities :: money
  totalEquity :: money

definition balanceSheet_line ::
    "report_row list \<times> report_row list \<times> report_row list \<Rightarrow> journal_line
     \<Rightarrow> report_row list \<times> report_row list \<times> report_row list" where
  "balanceSheet_line acc line =
     (case acc of (ass, liab, eq) \<Rightarrow>
        if accountType line = Some ''asset'' then
          (find_add_or_push (accountName line)
             (Number (debit_amount line) - Number (credit_amount line)) ass, liab, eq)
        else if accountType line = Some ''liability'' then
          (ass, find_add_or_push (accountName line)
             (Number (credit_amount line) - Number (debit_amount line)) liab, eq)
        else if accountType line = Some ''equity'' then
          (ass, liab, find_add_or_push (accountName line)
             (Number (credit_amount line) - Number (debit_amount line)) eq)
        else (ass, liab, eq))"

text \<open>
  \<^verbatim>\<open>generateBalanceSheet\<close>: its query selects every row of \<^verbatim>\<open>journal_lines\<close> with
  the joined account and carries no filter; the \<^verbatim>\<open>dateRange\<close> state is in scope and
  is not read. The page shows the result under the heading
  \<^verbatim>\<open>Financial position as of {new Date(dateRange.to).toLocaleDateString()}\<close>.
\<close>

definition generateBalanceSheet :: "dateRange \<Rightarrow> journal_line list \<Rightarrow> balanceSheet" where
  "generateBalanceSheet r journal_lines_table =
     (case foldl balanceSheet_line ([], [], []) journal_lines_table of (ass, liab, eq) \<Rightarrow>
        \<lparr>assets = ass, liabilities = liab, equity = eq,
         totalAssets = reduce_sum snd ass,
         totalLiabilities = reduce_sum snd liab,
         totalEquity = reduce_sum snd eq\<rparr>)"

text \<open>
  The Trial Balance keeps \<^verbatim>\<open>accountBalances\<close>, a plain object keyed by account name
  whose values are \<^verbatim>\<open>{ account_name, account_type, debit, credit }\<close>. The model keeps
  its own properties as a list in insertion order; the key of an entry is its
  \<open>tb_account_name\<close>.
\<close>

record trialBalance_account =
  tb_account_name :: string
  tb_account_type :: string
  tb_debit :: money
  tb_credit :: money

text \<open>
  The object is created by \<^verbatim>\<open>{}\<close>, so it inherits the properties of
  \<^verbatim>\<open>Object.prototype\<close>. Reading one of these keys gives a function or an object,
  which is truthy, so \<^verbatim>\<open>if (!accountBalances[accountName])\<close> creates no entry, and
  the two \<^verbatim>\<open>+=\<close> write to the inherited value, not to \<^verbatim>\<open>accountBalances\<close>.
\<close>

definition object_prototype_keys :: "string list" where
  "object_prototype_keys =
     [''constructor'', ''__proto__'', ''hasOwnProperty'', ''isPrototypeOf'',
      ''propertyIsEnumerable'', ''toLocaleString'', ''toString'', ''valueOf'',
      ''__defineGetter__'', ''__defineSetter__'', ''__lookupGetter__'', ''__lookupSetter__'']"

definition trialBalance_line :: "trialBalance_account list \<Rightarrow> journal_line \<Rightarrow> trialBalance_account list" where
  "trialBalance_line accountBalances line =
     (let name = accountName line;
          type = (case accountType line of None \<Rightarrow> ''unknown''
                  | Some t \<Rightarrow> if t = [] then ''unknown'' else t);
          truthy = (name \<in> set (map tb_account_name accountBalances)
                    \<or> name \<in> set object_prototype_keys);
          created = (if truthy then accountBalances
                     else accountBalances @
                       [\<lparr>tb_account_name = name, tb_account_type = type, tb_debit = 0, tb_credit = 0\<rparr>])
      in map (\<lambda>a. if tb_account_name a = name
                   then a\<lparr>tb_debit := tb_debit a + Number (debit_amount line),
                          tb_credit := tb_credit a + Number (credit_amount line)\<rparr>
                   else a) created)"

record trialBalance =
  accounts :: "trialBalance_account list"
  totalDebits :: money
  totalCredits :: money
  balanced :: bool

text \<open>
  \<^verbatim>\<open>generateTrialBalance\<close>: every row of \<^verbatim>\<open>journal_lines\<close>; \<^verbatim>\<open>Object.values\<close>
  lists the own entries (integer-like keys first, which no sum depends on);
  \<^verbatim>\<open>balanced = Math.abs(totalDebits - totalCredits) < 0.01\<close>.
\<close>

definition generateTrialBalance :: "journal_line list \<Rightarrow> trialBalance" where
  "generateTrialBalance journal_lines_table =
     (let accs = foldl trialBalance_line [] journal_lines_table;
          td = reduce_sum tb_debit accs;
          tc = reduce_sum tb_credit accs
      in \<lparr>accounts = accs, totalDebits = td, totalCredits = tc,
          balanced = (\<bar>td - tc\<bar> < 1 / 100)\<rparr>)"

section \<open>Line-item tax calculation (Invoices.tsx, Bills page)\<close>

record taxCode =
  tc_id :: string
  tc_name :: string
  tc_rate :: money

text \<open>A line of the new-invoice form; \<^verbatim>\<open>tax_code_id\<close> is \<^verbatim>\<open>''\<close> when none is chosen.\<close>

record invoiceLine =
  il_description :: string
  il_quantity :: money
  il_unit_price :: money
  il_tax_code_id :: string

record invoiceLineTotal =
  lineTotal :: money
  vatAmount :: money

text \<open>
  \<^verbatim>\<open>calculateLineTotal\<close> of Invoices.tsx:
  \<^verbatim>\<open>taxCode = taxCodes.find(tc => tc.id === line.tax_code_id);
  lineTotal = line.quantity * line.unit_price;
  vatAmount = taxCode ? (lineTotal * taxCode.rate) / 100 : 0\<close>
\<close>

definition calculateLineTotal :: "taxCode list \<Rightarrow> invoiceLine \<Rightarrow> invoiceLineTotal" where
  "calculateLineTotal taxCodes line =
     (let taxCode = find (\<lambda>tc. tc_id tc = il_tax_code_id line) taxCodes;
          lt = il_quantity line * il_unit_price line;
          va = (case taxCode of Some tc \<Rightarrow> (lt * tc_rate tc) / 100 | None \<Rightarrow> 0)
      in \<lparr>lineTotal = lt, vatAmount = va\<rparr>)"

text \<open>
  \<^verbatim>\<open>calculateInvoiceTotal\<close>: \<^verbatim>\<open>subtotal += lineTotal; vatTotal += vatAmount\<close> over
  the lines, then \<^verbatim>\<open>total: subtotal + vatTotal\<close>.
\<close>

record invoiceTotal =
  it_subtotal :: money
  it_vatTotal :: money
  it_total :: money

definition calculateInvoiceTotal :: "taxCode list \<Rightarrow> invoiceLine list \<Rightarrow> invoiceTotal" where
  "calculateInvoiceTotal taxCodes lines =
     (case foldl (\<lambda>(s, v) line. (s + lineTotal (calculateLineTotal taxCodes line),
                               v + vatAmount (calculateLineTotal taxCodes line))) (0, 0) lines of
        (s, v) \<Rightarrow> \<lparr>it_subtotal = s, it_vatTotal = v, it_total = s + v\<rparr>)"

text \<open>The row \<^verbatim>\<open>createInvoice\<close> sends to \<^verbatim>\<open>invoice_lines\<close> for a form line.\<close>

record stored_line =
  sl_quantity :: money
  sl_unit_price :: money
  sl_tax_code_id :: "string option"
  sl_line_total :: money
  sl_vat_amount :: money

definition invoice_linesData :: "taxCode list \<Rightarrow> invoiceLine \<Rightarrow> stored_line" where
  "invoice_linesData taxCodes line =
     (let t = calculateLineTotal taxCodes line
      in \<lparr>sl_quantity = il_quantity line, sl_unit_price = il_unit_price line,
          sl_tax_code_id = (if il_tax_code_id line = [] then None else Some (il_tax_code_id line)),
          sl_line_total = lineTotal t, sl_vat_amount = vatAmount t\<rparr>)"




text \<open>
  The specification's rounding rule, in its words: round half away from zero to two
  places. The pages never round an amount they compute.
\<close>

definition spec_round2 :: "money \<Rightarrow> money" where
  "spec_round2 x = sgn x * of_int \<lfloor>\<bar>x\<bar> * 100 + 1 / 2\<rfloor> / 100"

section \<open>Bank reconciliation (Banking page)\<close>

record bankTransaction =
  tx_id :: string
  tx_date :: date
  tx_description :: string
  tx_amount :: money
  tx_reference :: "string option"
  tx_reconciled :: bool
  tx_invoice_id :: "string option"
  tx_bill_id :: "string option"


record bankingBill =
  bb_id :: string
  bb_bill_number :: string
  bb_total :: money
  bb_supplier_name :: "string option"

datatype match_type = type_invoice | type_bill

text \<open>
  The store as \<^verbatim>\<open>handleReconcile\<close> meets it: the rows of \<^verbatim>\<open>bank_transactions\<close> and
  the ids present in \<^verbatim>\<open>invoices\<close> and \<^verbatim>\<open>bills\<close>, which the two foreign keys of
  \<^verbatim>\<open>bank_transactions\<close> refer to.
\<close>

record store =
  bank_transactions :: "bankTransaction list"
  invoice_ids :: "string list"
  bill_ids :: "string list"

text \<open>
  \<^verbatim>\<open>updates = { reconciled: true }\<close>, then \<^verbatim>\<open>updates.invoice_id = itemId\<close> or
  \<^verbatim>\<open>updates.bill_id = itemId\<close>, applied to one row.
\<close>

definition apply_updates :: "match_type \<Rightarrow> string \<Rightarrow> bankTransaction \<Rightarrow> bankTransaction" where
  "apply_updates type itemId t =
     (case type of
        type_invoice \<Rightarrow> t\<lparr>tx_reconciled := True, tx_invoice_id := Some itemId\<rparr>
      | type_bill \<Rightarrow> t\<lparr>tx_reconciled := True, tx_bill_id := Some itemId\<rparr>)"

text \<open>
  \<^verbatim>\<open>supabase.from('bank_transactions').update(updates).eq('id', transactionId)\<close>,
  then \<^verbatim>\<open>if (error) throw error\<close>. The update reaches every row with that id, whatever
  its \<^verbatim>\<open>reconciled\<close> column holds; the store refuses it when a row would come to
  refer to an invoice or bill that does not exist.
\<close>

definition handleReconcile :: "store \<Rightarrow> string \<Rightarrow> match_type \<Rightarrow> string \<Rightarrow> db_error + store" where
  "handleReconcile db transactionId type itemId =
     (let referenced = (case type of type_invoice \<Rightarrow> invoice_ids db | type_bill \<Rightarrow> bill_ids db);
          fkey = (case type of type_invoice \<Rightarrow> ''bank_transactions_invoice_id_fkey''
                  | type_bill \<Rightarrow> ''bank_transactions_bill_id_fkey'')
      in if transactionId \<in> set (map tx_id (bank_transactions db)) \<and> itemId \<notin> set referenced
         then Inl (foreign_key_violation fkey)
         else Inr (db\<lparr>bank_transactions :=
                map (\<lambda>t. if tx_id t = transactionId then apply_updates type itemId t else t)
                  (bank_transactions db)\<rparr>))"









section \<open>Properties of the VAT return\<close>

lemma foldl_add_start:
  "foldl (\<lambda>sum x. sum + f x) (a::money) xs = a + foldl (\<lambda>sum x. sum + f x) 0 xs"
proof (induction xs arbitrary: a)
  case Nil
  show ?case by simp
next
  case (Cons x xs)
  have "foldl (\<lambda>sum x. sum + f x) (a + f x) xs = (a + f x) + foldl (\<lambda>sum x. sum + f x) 0 xs"
    by (rule Cons.IH)
  moreover have "foldl (\<lambda>sum x. sum + f x) (0 + f x) xs = (0 + f x) + foldl (\<lambda>sum x. sum + f x) 0 xs"
    by (rule Cons.IH)
  ultimately show ?case by simp
qed

lemma reduce_sum_Nil: "reduce_sum f [] = 0"
  by (simp add: reduce_sum_def)

lemma reduce_sum_Cons: "reduce_sum f (x # xs) = f x + reduce_sum f xs"
  unfolding reduce_sum_def using foldl_add_start [of f "0 + f x" xs] by simp

lemma reduce_sum_sum_list: "reduce_sum f xs = sum_list (map f xs)"
  by (induction xs) (simp_all add: reduce_sum_Nil reduce_sum_Cons)

lemma gte_lte_map:
  assumes "\<And>x. col (g x) = col x"
  shows "gte_lte col r (map g xs) = map g (gte_lte col r xs)"
  using assms by (induction xs) (simp_all add: gte_lte_def)

text \<open>
  C8. For every table of invoices and of bills and every date range, the VAT return has
  Box3 = Box1 + Box2 and Box5 = Box3 - Box4, with Box2, Box8 and Box9 equal to 0.
\<close>

theorem vat_return_box_identities:
  "box3 (generateVATReturn r invs bls) =
     box1 (generateVATReturn r invs bls) + box2 (generateVATReturn r invs bls)
   \<and> box5 (generateVATReturn r invs bls) =
     box3 (generateVATReturn r invs bls) - box4 (generateVATReturn r invs bls)
   \<and> box2 (generateVATReturn r invs bls) = 0
   \<and> box8 (generateVATReturn r invs bls) = 0
   \<and> box9 (generateVATReturn r invs bls) = 0"
  by (simp add: generateVATReturn_def Let_def)

text \<open>
  C10. The VAT return does not read the status column: Box1 is the sum of vat_amount and
  Box6 the sum of total - vat_amount over all invoices dated within the range, Box4 and
  Box7 the same over all bills dated within the range, and rewriting the status of every
  invoice and every bill in any way leaves the return unchanged.
\<close>

theorem vat_return_ignores_status:
  "box1 (generateVATReturn r invs bls)
     = sum_list (map inv_vat_amount
         (filter (\<lambda>i. date_le (range_from r) (inv_date i) \<and> date_le (inv_date i) (range_to r)) invs))
   \<and> box6 (generateVATReturn r invs bls)
     = sum_list (map (\<lambda>i. inv_total i - inv_vat_amount i)
         (filter (\<lambda>i. date_le (range_from r) (inv_date i) \<and> date_le (inv_date i) (range_to r)) invs))
   \<and> box4 (generateVATReturn r invs bls)
     = sum_list (map bill_vat_amount
         (filter (\<lambda>b. date_le (range_from r) (bill_date b) \<and> date_le (bill_date b) (range_to r)) bls))
   \<and> box7 (generateVATReturn r invs bls)
     = sum_list (map (\<lambda>b. bill_total b - bill_vat_amount b)
         (filter (\<lambda>b. date_le (range_from r) (bill_date b) \<and> date_le (bill_date b) (range_to r)) bls))
   \<and> generateVATReturn r (map (\<lambda>i. i\<lparr>inv_status := f i\<rparr>) invs)
         (map (\<lambda>b. b\<lparr>bill_status := g b\<rparr>) bls) = generateVATReturn r invs bls"
proof -
  have m1: "gte_lte inv_date r (map (\<lambda>i. i\<lparr>inv_status := f i\<rparr>) invs)
            = map (\<lambda>i. i\<lparr>inv_status := f i\<rparr>) (gte_lte inv_date r invs)"
    by (rule gte_lte_map) simp
  have m2: "gte_lte bill_date r (map (\<lambda>b. b\<lparr>bill_status := g b\<rparr>) bls)
            = map (\<lambda>b. b\<lparr>bill_status := g b\<rparr>) (gte_lte bill_date r bls)"
    by (rule gte_lte_map) simp
  have boxes: "box1 (generateVATReturn r invs bls)
       = sum_list (map inv_vat_amount (gte_lte inv_date r invs))"
    "box6 (generateVATReturn r invs bls)
       = sum_list (map (\<lambda>i. inv_total i - inv_vat_amount i) (gte_lte inv_date r invs))"
    "box4 (generateVATReturn r invs bls)
       = sum_list (map bill_vat_amount (gte_lte bill_date r bls))"
    "box7 (generateVATReturn r invs bls)
       = sum_list (map (\<lambda>b. bill_total b - bill_vat_amount b) (gte_lte bill_date r bls))"
    by (simp_all add: generateVATReturn_def Let_def reduce_sum_sum_list)
  have same: "generateVATReturn r (map (\<lambda>i. i\<lparr>inv_status := f i\<rparr>) invs)
         (map (\<lambda>b. b\<lparr>bill_status := g b\<rparr>) bls) = generateVATReturn r invs bls"
    by (simp add: generateVATReturn_def Let_def reduce_sum_sum_list m1 m2 comp_def)
  from boxes same show ?thesis by (simp add: gte_lte_def)
qed

section \<open>Properties of the report rows\<close>

lemma find_add_or_push_sum:
  "sum_list (map snd (find_add_or_push n a rows)) = sum_list (map snd rows) + a"
  by (induction n a rows rule: find_add_or_push.induct) simp_all

lemma find_add_or_push_total:
  "sum_list (map snd (filter (\<lambda>r. fst r = m) (find_add_or_push n a rows)))
     = sum_list (map snd (filter (\<lambda>r. fst r = m) rows)) + (if m = n then a else 0)"
  by (induction n a rows rule: find_add_or_push.induct) auto

lemma find_add_or_push_names:
  "fst ` set (find_add_or_push n a rows) = insert n (fst ` set rows)"
  by (induction n a rows rule: find_add_or_push.induct) auto

lemma find_add_or_push_distinct:
  "distinct (map fst rows) \<Longrightarrow> distinct (map fst (find_add_or_push n a rows))"
proof (induction n a rows rule: find_add_or_push.induct)
  case (1 name amount)
  show ?case by simp
next
  case (2 name amount n t rows)
  show ?case
  proof (cases "n = name")
    case True
    with "2.prems" show ?thesis by simp
  next
    case False
    from "2.prems" have d: "distinct (map fst rows)" and nin: "n \<notin> set (map fst rows)"
      by simp_all
    have "distinct (map fst (find_add_or_push name amount rows))"
      using "2.IH" [OF False d] .
    moreover have "n \<notin> fst ` set (find_add_or_push name amount rows)"
      using nin False by (simp add: find_add_or_push_names)
    ultimately show ?thesis using False by simp
  qed
qed

lemma distinct_row_total:
  "distinct (map fst rows) \<Longrightarrow> (n, t) \<in> set rows
     \<Longrightarrow> sum_list (map snd (filter (\<lambda>r. fst r = n) rows)) = t"
proof (induction rows)
  case Nil
  then show ?case by simp
next
  case (Cons r rows)
  show ?case
  proof (cases "r = (n, t)")
    case True
    from Cons.prems(1) True have "n \<notin> fst ` set rows" by simp
    then have "filter (\<lambda>r. fst r = n) rows = []"
      by (auto simp: filter_empty_conv)
    with True show ?thesis by simp
  next
    case False
    with Cons.prems(2) have mem: "(n, t) \<in> set rows" by simp
    then have "n \<in> fst ` set rows" by force
    with Cons.prems(1) have "fst r \<noteq> n" by auto
    moreover have "sum_list (map snd (filter (\<lambda>r. fst r = n) rows)) = t"
      using Cons.IH Cons.prems(1) mem by simp
    ultimately show ?thesis by simp
  qed
qed

text \<open>The loop of find, add or push over a list of items.\<close>

lemma fold_rows_sum:
  "sum_list (map snd (foldl (\<lambda>rows x. find_add_or_push (key x) (val x) rows) rows0 xs))
     = sum_list (map snd rows0) + sum_list (map val xs)"
  by (induction xs arbitrary: rows0) (simp_all add: find_add_or_push_sum)

lemma fold_rows_total:
  "sum_list (map snd (filter (\<lambda>r. fst r = m)
       (foldl (\<lambda>rows x. find_add_or_push (key x) (val x) rows) rows0 xs)))
     = sum_list (map snd (filter (\<lambda>r. fst r = m) rows0))
       + sum_list (map val (filter (\<lambda>x. key x = m) xs))"
  by (induction xs arbitrary: rows0) (simp_all add: find_add_or_push_total)

lemma fold_rows_names:
  "fst ` set (foldl (\<lambda>rows x. find_add_or_push (key x) (val x) rows) rows0 xs)
     = fst ` set rows0 \<union> key ` set xs"
  by (induction xs arbitrary: rows0) (simp_all add: find_add_or_push_names)

lemma fold_rows_distinct:
  "distinct (map fst rows0)
    \<Longrightarrow> distinct (map fst (foldl (\<lambda>rows x. find_add_or_push (key x) (val x) rows) rows0 xs))"
  by (induction xs arbitrary: rows0) (simp_all add: find_add_or_push_distinct)

lemma fold_rows_member:
  assumes "x \<in> set xs"
  shows "(key x, sum_list (map val (filter (\<lambda>y. key y = key x) xs)))
           \<in> set (foldl (\<lambda>rows x. find_add_or_push (key x) (val x) rows) [] xs)"
proof -
  let ?res = "foldl (\<lambda>rows x. find_add_or_push (key x) (val x) rows) [] xs"
  have "key x \<in> fst ` set ?res"
    using assms by (simp add: fold_rows_names)
  then obtain t where t: "(key x, t) \<in> set ?res" by auto
  have d: "distinct (map fst ?res)" by (rule fold_rows_distinct) simp
  have "sum_list (map snd (filter (\<lambda>r. fst r = key x) ?res)) = t"
    using distinct_row_total [OF d t] .
  then have "t = sum_list (map val (filter (\<lambda>y. key y = key x) xs))"
    by (simp add: fold_rows_total)
  with t show ?thesis by simp
qed


section \<open>Profit and Loss\<close>

lemma profitLoss_fold_income:
  "fst (foldl profitLoss_line (inc, exps) ls)
     = foldl (\<lambda>rows x. find_add_or_push (accountName x)
                (Number (credit_amount x) - Number (debit_amount x)) rows) inc
         (filter (\<lambda>x. accountType x = Some ''income'') ls)"
  by (induction ls arbitrary: inc exps) (simp_all add: profitLoss_line_def)

lemma profitLoss_fold_expenses:
  "snd (foldl profitLoss_line (inc, exps) ls)
     = foldl (\<lambda>rows x. find_add_or_push (accountName x)
                (Number (debit_amount x) - Number (credit_amount x)) rows) exps
         (filter (\<lambda>x. accountType x = Some ''expense'') ls)"
  by (induction ls arbitrary: inc exps) (simp_all add: profitLoss_line_def)

lemma generateProfitLoss_income:
  "income (generateProfitLoss ls) = fst (foldl profitLoss_line ([], []) ls)"
  by (simp add: generateProfitLoss_def split: prod.splits)

lemma generateProfitLoss_expenses:
  "expenses (generateProfitLoss ls) = snd (foldl profitLoss_line ([], []) ls)"
  by (simp add: generateProfitLoss_def split: prod.splits)

text \<open>
  C9, as the code has it. The report keeps a row for every income and every expense account
  that has a line among the rows read, whatever its net amount, zero included: the row of
  an income account carries the sum of credit - debit over its lines, the row of an
  expense account the sum of debit - credit.
\<close>

theorem profit_loss_keeps_every_account:
  assumes "l \<in> set ls"
  shows "(accountType l = Some ''income'' \<longrightarrow>
            (accountName l,
             sum_list (map (\<lambda>x. Number (credit_amount x) - Number (debit_amount x))
               (filter (\<lambda>x. accountType x = Some ''income'' \<and> accountName x = accountName l) ls)))
            \<in> set (income (generateProfitLoss ls)))
       \<and> (accountType l = Some ''expense'' \<longrightarrow>
            (accountName l,
             sum_list (map (\<lambda>x. Number (debit_amount x) - Number (credit_amount x))
               (filter (\<lambda>x. accountType x = Some ''expense'' \<and> accountName x = accountName l) ls)))
            \<in> set (expenses (generateProfitLoss ls)))"
proof (intro conjI impI)
  assume t: "accountType l = Some ''income''"
  let ?xs = "filter (\<lambda>x. accountType x = Some ''income'') ls"
  from assms t have "l \<in> set ?xs" by simp
  from fold_rows_member [OF this, of accountName
      "\<lambda>x. Number (credit_amount x) - Number (debit_amount x)"]
  show "(accountName l,
         sum_list (map (\<lambda>x. Number (credit_amount x) - Number (debit_amount x))
           (filter (\<lambda>x. accountType x = Some ''income'' \<and> accountName x = accountName l) ls)))
        \<in> set (income (generateProfitLoss ls))"
    by (simp add: generateProfitLoss_income profitLoss_fold_income)
next
  assume t: "accountType l = Some ''expense''"
  let ?xs = "filter (\<lambda>x. accountType x = Some ''expense'') ls"
  from assms t have "l \<in> set ?xs" by simp
  from fold_rows_member [OF this, of accountName
      "\<lambda>x. Number (debit_amount x) - Number (credit_amount x)"]
  show "(accountName l,
         sum_list (map (\<lambda>x. Number (debit_amount x) - Number (credit_amount x))
           (filter (\<lambda>x. accountType x = Some ''expense'' \<and> accountName x = accountName l) ls)))
        \<in> set (expenses (generateProfitLoss ls))"
    by (simp add: generateProfitLoss_expenses profitLoss_fold_expenses)
qed

text \<open>
  C9 as stated fails: an income account credited 100 and debited 100 has net 0 and its row
  is in the report.
\<close>

theorem profit_loss_zero_row_counterexample:
  "income (generateProfitLoss
     [\<lparr>debit_amount = Some 0, credit_amount = Some 100,
       line_account = Some \<lparr>account_name = ''Sales Revenue'', account_type = ''income''\<rparr>,
       journal_date = (2025, 1, 10)\<rparr>,
      \<lparr>debit_amount = Some 100, credit_amount = Some 0,
       line_account = Some \<lparr>account_name = ''Sales Revenue'', account_type = ''income''\<rparr>,
       journal_date = (2025, 1, 20)\<rparr>])
   = [(''Sales Revenue'', 0)]"
  by (simp add: generateProfitLoss_def profitLoss_line_def accountType_def accountName_def
      Number_def)

theorem profit_loss_keeps_every_account_witness:
  "(''Sales Revenue'', 0) \<in> set (income (generateProfitLoss
     [\<lparr>debit_amount = Some 0, credit_amount = Some 100,
       line_account = Some \<lparr>account_name = ''Sales Revenue'', account_type = ''income''\<rparr>,
       journal_date = (2025, 1, 10)\<rparr>,
      \<lparr>debit_amount = Some 100, credit_amount = Some 0,
       line_account = Some \<lparr>account_name = ''Sales Revenue'', account_type = ''income''\<rparr>,
       journal_date = (2025, 1, 20)\<rparr>]))
   \<and> (''Office Expenses'', 40) \<in> set (expenses (generateProfitLoss
     [\<lparr>debit_amount = Some 40, credit_amount = Some 0,
       line_account = Some \<lparr>account_name = ''Office Expenses'', account_type = ''expense''\<rparr>,
       journal_date = (2025, 1, 10)\<rparr>]))"
  using profit_loss_keeps_every_account [of
     "\<lparr>debit_amount = Some 0, credit_amount = Some 100,
       line_account = Some \<lparr>account_name = ''Sales Revenue'', account_type = ''income''\<rparr>,
       journal_date = (2025, 1, 10)\<rparr>"
     "[\<lparr>debit_amount = Some 0, credit_amount = Some 100,
       line_account = Some \<lparr>account_name = ''Sales Revenue'', account_type = ''income''\<rparr>,
       journal_date = (2025, 1, 10)\<rparr>,
      \<lparr>debit_amount = Some 100, credit_amount = Some 0,
       line_account = Some \<lparr>account_name = ''Sales Revenue'', account_type = ''income''\<rparr>,
       journal_date = (2025, 1, 20)\<rparr>]"]
    profit_loss_keeps_every_account [of
     "\<lparr>debit_amount = Some 40, credit_amount = Some 0,
       line_account = Some \<lparr>account_name = ''Office Expenses'', account_type = ''expense''\<rparr>,
       journal_date = (2025, 1, 10)\<rparr>"
     "[\<lparr>debit_amount = Some 40, credit_amount = Some 0,
       line_account = Some \<lparr>account_name = ''Office Expenses'', account_type = ''expense''\<rparr>,
       journal_date = (2025, 1, 10)\<rparr>]"]
  by (simp add: accountType_def accountName_def Number_def)

section \<open>Balance Sheet\<close>

lemma balanceSheet_fold_assets:
  "fst (foldl balanceSheet_line (ass, liab, eq) ls)
     = foldl (\<lambda>rows x. find_add_or_push (accountName x)
                (Number (debit_amount x) - Number (credit_amount x)) rows) ass
         (filter (\<lambda>x. accountType x = Some ''asset'') ls)"
  by (induction ls arbitrary: ass liab eq) (simp_all add: balanceSheet_line_def)

lemma balanceSheet_fold_liabilities:
  "fst (snd (foldl balanceSheet_line (ass, liab, eq) ls))
     = foldl (\<lambda>rows x. find_add_or_push (accountName x)
                (Number (credit_amount x) - Number (debit_amount x)) rows) liab
         (filter (\<lambda>x. accountType x = Some ''liability'') ls)"
  by (induction ls arbitrary: ass liab eq) (simp_all add: balanceSheet_line_def)

lemma balanceSheet_fold_equity:
  "snd (snd (foldl balanceSheet_line (ass, liab, eq) ls))
     = foldl (\<lambda>rows x. find_add_or_push (accountName x)
                (Number (credit_amount x) - Number (debit_amount x)) rows) eq
         (filter (\<lambda>x. accountType x = Some ''equity'') ls)"
  by (induction ls arbitrary: ass liab eq) (simp_all add: balanceSheet_line_def)

lemma generateBalanceSheet_fields:
  "assets (generateBalanceSheet r ls) = fst (foldl balanceSheet_line ([], [], []) ls)"
  "liabilities (generateBalanceSheet r ls) = fst (snd (foldl balanceSheet_line ([], [], []) ls))"
  "equity (generateBalanceSheet r ls) = snd (snd (foldl balanceSheet_line ([], [], []) ls))"
  "totalAssets (generateBalanceSheet r ls) = sum_list (map snd (assets (generateBalanceSheet r ls)))"
  "totalLiabilities (generateBalanceSheet r ls)
     = sum_list (map snd (liabilities (generateBalanceSheet r ls)))"
  "totalEquity (generateBalanceSheet r ls) = sum_list (map snd (equity (generateBalanceSheet r ls)))"
  by (simp_all add: generateBalanceSheet_def reduce_sum_sum_list split: prod.splits)

text \<open>
  What the Balance Sheet computes. For every date range it aggregates every row of
  journal_lines, whatever the date of its journal: each total is the sum over all lines of
  that account type (debit - credit for assets, credit - debit for liabilities and
  equity), each account with a line has a row carrying the sum over all its lines, and the
  report is the same for every date range.
\<close>

lemma balance_sheet_takes_every_line:
  "totalAssets (generateBalanceSheet r table)
     = sum_list (map (\<lambda>x. Number (debit_amount x) - Number (credit_amount x))
         (filter (\<lambda>x. accountType x = Some ''asset'') table))
   \<and> totalLiabilities (generateBalanceSheet r table)
     = sum_list (map (\<lambda>x. Number (credit_amount x) - Number (debit_amount x))
         (filter (\<lambda>x. accountType x = Some ''liability'') table))
   \<and> totalEquity (generateBalanceSheet r table)
     = sum_list (map (\<lambda>x. Number (credit_amount x) - Number (debit_amount x))
         (filter (\<lambda>x. accountType x = Some ''equity'') table))
   \<and> (l \<in> set table \<and> accountType l = Some ''asset'' \<longrightarrow>
        (accountName l,
         sum_list (map (\<lambda>x. Number (debit_amount x) - Number (credit_amount x))
           (filter (\<lambda>x. accountType x = Some ''asset'' \<and> accountName x = accountName l) table)))
        \<in> set (assets (generateBalanceSheet r table)))
   \<and> (l \<in> set table \<and> accountType l = Some ''liability'' \<longrightarrow>
        (accountName l,
         sum_list (map (\<lambda>x. Number (credit_amount x) - Number (debit_amount x))
           (filter (\<lambda>x. accountType x = Some ''liability'' \<and> accountName x = accountName l) table)))
        \<in> set (liabilities (generateBalanceSheet r table)))
   \<and> (l \<in> set table \<and> accountType l = Some ''equity'' \<longrightarrow>
        (accountName l,
         sum_list (map (\<lambda>x. Number (credit_amount x) - Number (debit_amount x))
           (filter (\<lambda>x. accountType x = Some ''equity'' \<and> accountName x = accountName l) table)))
        \<in> set (equity (generateBalanceSheet r table)))
   \<and> generateBalanceSheet r table = generateBalanceSheet r' table"
proof (intro conjI impI)
  show "totalAssets (generateBalanceSheet r table)
     = sum_list (map (\<lambda>x. Number (debit_amount x) - Number (credit_amount x))
         (filter (\<lambda>x. accountType x = Some ''asset'') table))"
    by (simp add: generateBalanceSheet_fields balanceSheet_fold_assets fold_rows_sum)
  show "totalLiabilities (generateBalanceSheet r table)
     = sum_list (map (\<lambda>x. Number (credit_amount x) - Number (debit_amount x))
         (filter (\<lambda>x. accountType x = Some ''liability'') table))"
    by (simp add: generateBalanceSheet_fields balanceSheet_fold_liabilities fold_rows_sum)
  show "totalEquity (generateBalanceSheet r table)
     = sum_list (map (\<lambda>x. Number (credit_amount x) - Number (debit_amount x))
         (filter (\<lambda>x. accountType x = Some ''equity'') table))"
    by (simp add: generateBalanceSheet_fields balanceSheet_fold_equity fold_rows_sum)
  show "generateBalanceSheet r table = generateBalanceSheet r' table"
    by (simp add: generateBalanceSheet_def)
next
  assume a: "l \<in> set table \<and> accountType l = Some ''asset''"
  then have "l \<in> set (filter (\<lambda>x. accountType x = Some ''asset'') table)" by simp
  from fold_rows_member [OF this, of accountName
      "\<lambda>x. Number (debit_amount x) - Number (credit_amount x)"]
  show "(accountName l,
         sum_list (map (\<lambda>x. Number (debit_amount x) - Number (credit_amount x))
           (filter (\<lambda>x. accountType x = Some ''asset'' \<and> accountName x = accountName l) table)))
        \<in> set (assets (generateBalanceSheet r table))"
    by (simp add: generateBalanceSheet_fields balanceSheet_fold_assets)
next
  assume a: "l \<in> set table \<and> accountType l = Some ''liability''"
  then have "l \<in> set (filter (\<lambda>x. accountType x = Some ''liability'') table)" by simp
  from fold_rows_member [OF this, of accountName
      "\<lambda>x. Number (credit_amount x) - Number (debit_amount x)"]
  show "(accountName l,
         sum_list (map (\<lambda>x. Number (credit_amount x) - Number (debit_amount x))
           (filter (\<lambda>x. accountType x = Some ''liability'' \<and> accountName x = accountName l) table)))
        \<in> set (liabilities (generateBalanceSheet r table))"
    by (simp add: generateBalanceSheet_fields balanceSheet_fold_liabilities)
next
  assume a: "l \<in> set table \<and> accountType l = Some ''equity''"
  then have "l \<in> set (filter (\<lambda>x. accountType x = Some ''equity'') table)" by simp
  from fold_rows_member [OF this, of accountName
      "\<lambda>x. Number (credit_amount x) - Number (debit_amount x)"]
  show "(accountName l,
         sum_list (map (\<lambda>x. Number (credit_amount x) - Number (debit_amount x))
           (filter (\<lambda>x. accountType x = Some ''equity'' \<and> accountName x = accountName l) table)))
        \<in> set (equity (generateBalanceSheet r table))"
    by (simp add: generateBalanceSheet_fields balanceSheet_fold_equity)
qed

text \<open>
  C4. The Balance Sheet is to aggregate exactly the postings dated up to and including
  the to date, and the page heads it as the position as of that date. The code at a date
  range ending on 2024-12-31 and a single posting of 2025-06-01, debit 100 to an asset
  account: the posting is in the asset rows and in the total, where the claim has no
  asset row and a total of 0.
\<close>

theorem balance_sheet_includes_posting_after_to:
  "assets (generateBalanceSheet \<lparr>range_from = (2024, 1, 1), range_to = (2024, 12, 31)\<rparr>
     [\<lparr>debit_amount = Some 100, credit_amount = Some 0,
       line_account = Some \<lparr>account_name = ''Current Account'', account_type = ''asset''\<rparr>,
       journal_date = (2025, 6, 1)\<rparr>])
     = [(''Current Account'', 100)]
   \<and> totalAssets (generateBalanceSheet \<lparr>range_from = (2024, 1, 1), range_to = (2024, 12, 31)\<rparr>
     [\<lparr>debit_amount = Some 100, credit_amount = Some 0,
       line_account = Some \<lparr>account_name = ''Current Account'', account_type = ''asset''\<rparr>,
       journal_date = (2025, 6, 1)\<rparr>])
     = 100
   \<and> \<not> date_le (2025, 6, 1) (2024, 12, 31)"
  by (simp add: generateBalanceSheet_def balanceSheet_line_def accountType_def accountName_def
      Number_def reduce_sum_def)

section \<open>Trial Balance\<close>










text \<open>
  Why the account names are restricted: the lines of an account named like an inherited
  property never reach \<^verbatim>\<open>accountBalances\<close>, so they are missing from the totals.
\<close>

lemma trial_balance_inherited_key:
  "generateTrialBalance
     [\<lparr>debit_amount = Some 100, credit_amount = Some 0,
       line_account = Some \<lparr>account_name = ''constructor'', account_type = ''asset''\<rparr>,
       journal_date = (2025, 1, 10)\<rparr>]
   = \<lparr>accounts = [], totalDebits = 0, totalCredits = 0, balanced = True\<rparr>"
  by (simp add: generateTrialBalance_def trialBalance_line_def accountType_def accountName_def
      Number_def reduce_sum_def object_prototype_keys_def Let_def)

section \<open>Journal line validation\<close>







section \<open>Line-item tax calculation\<close>

lemma find_filter_out: "find P (filter (\<lambda>x. \<not> P x) xs) = None"
  by (induction xs) simp_all

lemma invoice_total_fold:
  "foldl (\<lambda>(s, v) line. (s + f line, v + g line)) (s0, v0) lines
     = (s0 + sum_list (map f lines), v0 + sum_list (map g lines))"
  by (induction lines arbitrary: s0 v0) (simp_all add: add.assoc)

text \<open>
  C5, as the code has it. For every line, the invoice line calculator returns
  net = quantity * unit_price and vat = net * rate / 100, neither of them rounded; a tax
  code that is not found gives vat = 0, as a 0 percent code does. It returns no gross: the
  invoice total is the sum of the nets plus the sum of the vats. The line_total sent to
  the store is the net amount, the vat_amount the vat.
\<close>

theorem calculateLineTotal_unrounded:
  "lineTotal (calculateLineTotal tcs line) = il_quantity line * il_unit_price line
   \<and> vatAmount (calculateLineTotal tcs line)
       = (case find (\<lambda>tc. tc_id tc = il_tax_code_id line) tcs of
            None \<Rightarrow> 0
          | Some tc \<Rightarrow> il_quantity line * il_unit_price line * tc_rate tc / 100)
   \<and> calculateLineTotal (filter (\<lambda>tc. tc_id tc \<noteq> il_tax_code_id line) tcs) line
       = calculateLineTotal (\<lparr>tc_id = il_tax_code_id line, tc_name = n, tc_rate = 0\<rparr> # tcs) line
   \<and> sl_line_total (invoice_linesData tcs line) = il_quantity line * il_unit_price line
   \<and> sl_vat_amount (invoice_linesData tcs line) = vatAmount (calculateLineTotal tcs line)
   \<and> it_total (calculateInvoiceTotal tcs lines)
       = sum_list (map (\<lambda>l. lineTotal (calculateLineTotal tcs l)) lines)
         + sum_list (map (\<lambda>l. vatAmount (calculateLineTotal tcs l)) lines)"
proof (intro conjI)
  show "lineTotal (calculateLineTotal tcs line) = il_quantity line * il_unit_price line"
    by (simp add: calculateLineTotal_def Let_def)
  show "vatAmount (calculateLineTotal tcs line)
       = (case find (\<lambda>tc. tc_id tc = il_tax_code_id line) tcs of
            None \<Rightarrow> 0
          | Some tc \<Rightarrow> il_quantity line * il_unit_price line * tc_rate tc / 100)"
    by (simp add: calculateLineTotal_def Let_def)
  show "calculateLineTotal (filter (\<lambda>tc. tc_id tc \<noteq> il_tax_code_id line) tcs) line
       = calculateLineTotal (\<lparr>tc_id = il_tax_code_id line, tc_name = n, tc_rate = 0\<rparr> # tcs) line"
    using find_filter_out [of "\<lambda>tc. tc_id tc = il_tax_code_id line" tcs]
    by (simp add: calculateLineTotal_def Let_def)
  show "sl_line_total (invoice_linesData tcs line) = il_quantity line * il_unit_price line"
    by (simp add: invoice_linesData_def calculateLineTotal_def Let_def)
  show "sl_vat_amount (invoice_linesData tcs line) = vatAmount (calculateLineTotal tcs line)"
    by (simp add: invoice_linesData_def Let_def)
  show "it_total (calculateInvoiceTotal tcs lines)
       = sum_list (map (\<lambda>l. lineTotal (calculateLineTotal tcs l)) lines)
         + sum_list (map (\<lambda>l. vatAmount (calculateLineTotal tcs l)) lines)"
    by (simp add: calculateInvoiceTotal_def invoice_total_fold)
qed

text \<open>
  C5 as stated fails: for quantity 0.5 at 0.03 with the 20 percent code, the calculator
  returns net 0.015 and vat 0.003, where rounding gives net 0.02 and vat 0.00.
\<close>

theorem line_total_not_rounded_counterexample:
  "lineTotal (calculateLineTotal
      [\<lparr>tc_id = ''std'', tc_name = ''Standard Rate VAT'', tc_rate = 20\<rparr>]
      \<lparr>il_description = ''item'', il_quantity = 1 / 2, il_unit_price = 3 / 100,
       il_tax_code_id = ''std''\<rparr>) = 3 / 200
   \<and> spec_round2 (1 / 2 * (3 / 100)) = 2 / 100
   \<and> vatAmount (calculateLineTotal
      [\<lparr>tc_id = ''std'', tc_name = ''Standard Rate VAT'', tc_rate = 20\<rparr>]
      \<lparr>il_description = ''item'', il_quantity = 1 / 2, il_unit_price = 3 / 100,
       il_tax_code_id = ''std''\<rparr>) = 3 / 1000
   \<and> spec_round2 (spec_round2 (1 / 2 * (3 / 100)) * 20 / 100) = 0"
  by (simp add: calculateLineTotal_def spec_round2_def Let_def floor_eq_iff)

section \<open>Invoice lines and bill lines\<close>



section \<open>Reconciliation: suggestions and commit\<close>







text \<open>
  C2, as the code has it. For every bank transaction whose reconciled flag is already true
  and every existing invoice or bill, handleReconcile succeeds: the transaction stays
  reconciled, the id column of the chosen kind is set to the target, and the other id
  column keeps its value. No commit is refused because of the flag, so committing can
  succeed again against the same transaction.
\<close>

theorem handleReconcile_ignores_reconciled:
  assumes "i < length (bank_transactions db)"
      and "tx_id (bank_transactions db ! i) = transactionId"
      and "tx_reconciled (bank_transactions db ! i)"
      and "itemId \<in> set (case type of type_invoice \<Rightarrow> invoice_ids db | type_bill \<Rightarrow> bill_ids db)"
  shows "case handleReconcile db transactionId type itemId of
           Inl e \<Rightarrow> False
         | Inr db' \<Rightarrow>
             length (bank_transactions db') = length (bank_transactions db)
           \<and> tx_reconciled (bank_transactions db' ! i)
           \<and> (case type of
                 type_invoice \<Rightarrow>
                   tx_invoice_id (bank_transactions db' ! i) = Some itemId
                   \<and> tx_bill_id (bank_transactions db' ! i) = tx_bill_id (bank_transactions db ! i)
               | type_bill \<Rightarrow>
                   tx_bill_id (bank_transactions db' ! i) = Some itemId
                   \<and> tx_invoice_id (bank_transactions db' ! i)
                       = tx_invoice_id (bank_transactions db ! i))"
  using assms
  by (cases type) (simp_all add: handleReconcile_def apply_updates_def Let_def)

text \<open>
  C2 as stated fails: a transaction already reconciled with invoice inv-1 is committed to
  invoice inv-2 without error, and its invoice_id changes.
\<close>

theorem reconcile_twice_counterexample:
  "handleReconcile
     \<lparr>bank_transactions =
        [\<lparr>tx_id = ''tx-1'', tx_date = (2025, 3, 1), tx_description = ''Payment INV-1001'',
          tx_amount = 120, tx_reference = None, tx_reconciled = True,
          tx_invoice_id = Some ''inv-1'', tx_bill_id = None\<rparr>],
      invoice_ids = [''inv-1'', ''inv-2''], bill_ids = [''bill-1'']\<rparr>
     ''tx-1'' type_invoice ''inv-2''
   = Inr \<lparr>bank_transactions =
        [\<lparr>tx_id = ''tx-1'', tx_date = (2025, 3, 1), tx_description = ''Payment INV-1001'',
          tx_amount = 120, tx_reference = None, tx_reconciled = True,
          tx_invoice_id = Some ''inv-2'', tx_bill_id = None\<rparr>],
      invoice_ids = [''inv-1'', ''inv-2''], bill_ids = [''bill-1'']\<rparr>"
  by (simp add: handleReconcile_def apply_updates_def)

theorem handleReconcile_ignores_reconciled_witness:
  "case handleReconcile
     \<lparr>bank_transactions =
        [\<lparr>tx_id = ''tx-1'', tx_date = (2025, 3, 1), tx_description = ''Payment INV-1001'',
          tx_amount = 120, tx_reference = None, tx_reconciled = True,
          tx_invoice_id = Some ''inv-1'', tx_bill_id = None\<rparr>],
      invoice_ids = [''inv-1'', ''inv-2''], bill_ids = [''bill-1'']\<rparr>
     ''tx-1'' type_bill ''bill-1'' of
     Inl e \<Rightarrow> False
   | Inr db' \<Rightarrow>
       length (bank_transactions db') = 1
     \<and> tx_reconciled (bank_transactions db' ! 0)
     \<and> tx_bill_id (bank_transactions db' ! 0) = Some ''bill-1''
     \<and> tx_invoice_id (bank_transactions db' ! 0) = Some ''inv-1''"
  using handleReconcile_ignores_reconciled [of 0
     "\<lparr>bank_transactions =
        [\<lparr>tx_id = ''tx-1'', tx_date = (2025, 3, 1), tx_description = ''Payment INV-1001'',
          tx_amount = 120, tx_reference = None, tx_reconciled = True,
          tx_invoice_id = Some ''inv-1'', tx_bill_id = None\<rparr>],
      invoice_ids = [''inv-1'', ''inv-2''], bill_ids = [''bill-1'']\<rparr>"
     "''tx-1''" "''bill-1''" type_bill]
  by (simp split: sum.splits)

end
